theory Spec2Isabelle
  imports Complex_Main "HOL-Library.Word" "HOL-Library.Sublist"
begin

unbundle bit_operations_syntax

section \<open>The HDC1080 driver (amu\_hdc1080.py)\<close>

text \<open>
  A shallow embedding of the CircuitPython driver for the HDC1080 temperature and
  humidity sensor. The driver talks to three collaborators that are not part of the
  repository: the I2C device of Adafruit's Bus Device library, the register descriptors
  of Adafruit's Register library, and the clock (\<^verbatim>\<open>time.sleep\<close>). Every call
  the driver makes to one of them is recorded, in order, in a trace; what the bus answers
  is a parameter of the model.
\<close>

subsection \<open>Constants\<close>

definition HDC1080_I2CADDR_DEFAULT :: int where
  "HDC1080_I2CADDR_DEFAULT = 0x40"

definition HDC1080_DEVICE_ID :: int where
  "HDC1080_DEVICE_ID = 0x1050"

definition REG_TEMP :: int where
  "REG_TEMP = 0x00"

definition REG_HUMI :: int where
  "REG_HUMI = 0x01"

definition REG_CONF :: int where
  "REG_CONF = 0x02"

definition REG_DEID :: int where
  "REG_DEID = 0xFF"

definition READ_BOTH_VALUES :: int where
  "READ_BOTH_VALUES = 0x01"

definition READ_SINGLE_VALUE :: int where
  "READ_SINGLE_VALUE = 0x00"

subsection \<open>The conversion functions\<close>

text \<open>
  Python's \<^verbatim>\<open>/\<close> on integers is true division and the result is a float. The
  model computes in the rationals. For the raw values a 16-bit register can hold, signed
  or unsigned, every intermediate result is a multiple of \<open>2\<^sup>-\<^sup>1\<^sup>6\<close> whose
  numerator is below \<open>2\<^sup>2\<^sup>4\<close> in absolute value (lemmas \<open>convert_to_celsius_dyadic\<close>
  and \<open>convert_to_relative_humidity_dyadic\<close>), so binary floating point with a
  significand of 24 bits or more computes it without rounding and the rational is the
  float the code returns.
\<close>

definition convert_to_celsius :: "int \<Rightarrow> rat" where
  "convert_to_celsius raw_value = (of_int raw_value / (2 ^ 16)) * 165 - 40"

definition convert_to_relative_humidity :: "int \<Rightarrow> rat" where
  "convert_to_relative_humidity raw_value = (of_int raw_value / (2 ^ 16)) * 100"

subsection \<open>Bytes, errors and the world\<close>

type_synonym byte = "8 word"

text \<open>
  The exceptions that can leave the driver. The driver itself raises \<open>RuntimeError\<close>
  only, with one of three messages; the others come from its collaborators:
  \<open>ValueError\<close> when the I2C device does not answer at its address,
  \<open>OSError\<close> when a transfer fails, \<open>StructError\<close> from
  \<^verbatim>\<open>struct.unpack_from\<close>, \<open>IndexError\<close> from an assignment outside a buffer.
\<close>

datatype error = RuntimeError string | ValueError | OSError | StructError | IndexError

text \<open>
  A call to the I2C device at some address: opening it (\<^verbatim>\<open>I2CDevice(i2c, address)\<close>),
  entering and leaving its \<^verbatim>\<open>with\<close> block, \<^verbatim>\<open>write\<close> with the bytes sent,
  \<^verbatim>\<open>readinto\<close> with the slice bounds, and the accesses to the register descriptors
  with the parameters they are declared with:
  \<open>StructGet register format\<close> for \<^verbatim>\<open>ROUnaryStruct\<close>,
  \<open>BitSet register bit register_width lsb_first value\<close> for \<^verbatim>\<open>RWBit\<close>,
  \<open>BitsSet num_bits register lowest_bit register_width lsb_first value\<close> for
  \<^verbatim>\<open>RWBits\<close>.
\<close>

datatype call =
    Open
  | Enter
  | Exit
  | Write "byte list"
  | ReadInto nat nat
  | StructGet int string
  | BitSet int nat nat bool int
  | BitsSet nat int nat nat bool int

text \<open>An event of the trace: a call to the device at an address, or a sleep in seconds.\<close>

datatype event = Bus int call | Sleep rat

datatype reply = Nack | Ack "byte list"

text \<open>
  The world outside one driver instance: the class attribute \<^verbatim>\<open>HDC1080._BUFFER\<close>
  (one bytearray, created once when the class is defined), the trace of the calls made so
  far, oldest first, and the bus, which answers a call given the trace that ends with it:
  \<open>Nack\<close> when the transfer fails, \<open>Ack bs\<close> with the bytes read otherwise.
\<close>

record world =
  BUFFER :: "byte list"
  trace :: "event list"
  bus :: "event list \<Rightarrow> reply"

text \<open>
  A driver instance holds the two attributes \<^verbatim>\<open>__init__\<close> assigns. The I2C device
  is identified by its address.
\<close>

record HDC1080 =
  i2c_device :: int
  mode :: int

text \<open>
  \<^verbatim>\<open>self._BUFFER\<close>: the instance has no attribute of that name, so the lookup
  finds the attribute of the class.
\<close>

definition self_BUFFER :: "HDC1080 \<Rightarrow> world \<Rightarrow> byte list" where
  "self_BUFFER self w = BUFFER w"

definition BUFFER_initial :: "byte list" where
  "BUFFER_initial = replicate 5 0"

subsection \<open>The collaborators\<close>

definition call_bus :: "event \<Rightarrow> world \<Rightarrow> reply \<times> world" where
  "call_bus e w = (let h = trace w @ [e] in (bus w h, w\<lparr>trace := h\<rparr>))"

definition note_event :: "event \<Rightarrow> world \<Rightarrow> world" where
  "note_event e w = w\<lparr>trace := trace w @ [e]\<rparr>"

text \<open>\<^verbatim>\<open>time.sleep(seconds)\<close>\<close>

definition sleep :: "rat \<Rightarrow> world \<Rightarrow> world" where
  "sleep seconds w = note_event (Sleep seconds) w"

text \<open>\<^verbatim>\<open>i2c.write(self._BUFFER, end=end)\<close>: sends \<^verbatim>\<open>_BUFFER[0:end]\<close>.\<close>

definition i2c_write :: "int \<Rightarrow> nat \<Rightarrow> world \<Rightarrow> (error + unit) \<times> world" where
  "i2c_write address end_arg w =
     (case call_bus (Bus address (Write (take end_arg (BUFFER w)))) w of
        (Nack, w') \<Rightarrow> (Inl OSError, w')
      | (Ack bs, w') \<Rightarrow> (Inr (), w'))"

text \<open>
  \<^verbatim>\<open>i2c.readinto(self._BUFFER, start=start, end=end)\<close>: fills
  \<^verbatim>\<open>_BUFFER[start:end]\<close> in place with the bytes read. A reply that does not hold
  exactly \<open>end_arg - start\<close> bytes is not a transfer the bus can make and counts as failed.
\<close>

definition i2c_readinto :: "int \<Rightarrow> nat \<Rightarrow> nat \<Rightarrow> world \<Rightarrow> (error + unit) \<times> world" where
  "i2c_readinto address start end_arg w =
     (case call_bus (Bus address (ReadInto start end_arg)) w of
        (Nack, w') \<Rightarrow> (Inl OSError, w')
      | (Ack bs, w') \<Rightarrow>
          if length bs = end_arg - start
          then (Inr (), w'\<lparr>BUFFER := take start (BUFFER w') @ bs @ drop end_arg (BUFFER w')\<rparr>)
          else (Inl OSError, w'))"

text \<open>
  \<^verbatim>\<open>struct.unpack_from(format, buffer, offset)[0]\<close> for the two formats the driver
  uses: \<^verbatim>\<open>'>H'\<close>, a big-endian unsigned short, and \<^verbatim>\<open>'>h'\<close>, a big-endian signed
  short (two's complement).
\<close>

definition unpack_from :: "string \<Rightarrow> byte list \<Rightarrow> nat \<Rightarrow> error + int" where
  "unpack_from struct_format buffer offset =
     (if length buffer < offset + 2 then Inl StructError
      else
        let v = 256 * uint (buffer ! offset) + uint (buffer ! (offset + 1)) in
        if struct_format = ''>H'' then Inr v
        else if struct_format = ''>h'' then Inr (if v < 32768 then v else v - 65536)
        else Inl StructError)"

text \<open>
  Reading a \<^verbatim>\<open>ROUnaryStruct(register, format)\<close> descriptor: the library reads the
  register and unpacks the bytes it got, which follow the register address in its buffer.
\<close>

definition ROUnaryStruct_get :: "HDC1080 \<Rightarrow> int \<Rightarrow> string \<Rightarrow> world \<Rightarrow> (error + int) \<times> world" where
  "ROUnaryStruct_get self register struct_format w =
     (case call_bus (Bus (i2c_device self) (StructGet register struct_format)) w of
        (Nack, w') \<Rightarrow> (Inl OSError, w')
      | (Ack bs, w') \<Rightarrow>
          if length bs = 2
          then (unpack_from struct_format (of_int (register AND 0xFF) # bs) 1, w')
          else (Inl OSError, w'))"

text \<open>Assigning to a \<^verbatim>\<open>RWBit\<close> or \<^verbatim>\<open>RWBits\<close> descriptor.\<close>

definition RWBit_set :: "HDC1080 \<Rightarrow> int \<Rightarrow> nat \<Rightarrow> nat \<Rightarrow> bool \<Rightarrow> int \<Rightarrow> world \<Rightarrow> (error + unit) \<times> world" where
  "RWBit_set self register bit_arg register_width lsb_first v w =
     (case call_bus (Bus (i2c_device self) (BitSet register bit_arg register_width lsb_first v)) w of
        (Nack, w') \<Rightarrow> (Inl OSError, w')
      | (Ack bs, w') \<Rightarrow> (Inr (), w'))"

definition RWBits_set :: "HDC1080 \<Rightarrow> nat \<Rightarrow> int \<Rightarrow> nat \<Rightarrow> nat \<Rightarrow> bool \<Rightarrow> int \<Rightarrow> world \<Rightarrow> (error + unit) \<times> world" where
  "RWBits_set self num_bits register lowest_bit register_width lsb_first v w =
     (case call_bus (Bus (i2c_device self)
                      (BitsSet num_bits register lowest_bit register_width lsb_first v)) w of
        (Nack, w') \<Rightarrow> (Inl OSError, w')
      | (Ack bs, w') \<Rightarrow> (Inr (), w'))"

subsection \<open>The descriptors of the class\<close>

definition device_id_get :: "HDC1080 \<Rightarrow> world \<Rightarrow> (error + int) \<times> world" where
  "device_id_get self w = ROUnaryStruct_get self REG_DEID ''>H'' w"

definition software_reset_set :: "HDC1080 \<Rightarrow> int \<Rightarrow> world \<Rightarrow> (error + unit) \<times> world" where
  "software_reset_set self v w = RWBit_set self REG_CONF 15 2 False v w"

definition temp_resolution_set :: "HDC1080 \<Rightarrow> int \<Rightarrow> world \<Rightarrow> (error + unit) \<times> world" where
  "temp_resolution_set self v w = RWBit_set self REG_CONF 10 2 False v w"

definition humidity_resolution_set :: "HDC1080 \<Rightarrow> int \<Rightarrow> world \<Rightarrow> (error + unit) \<times> world" where
  "humidity_resolution_set self v w = RWBits_set self 2 REG_CONF 8 2 False v w"

definition operation_mode_set :: "HDC1080 \<Rightarrow> int \<Rightarrow> world \<Rightarrow> (error + unit) \<times> world" where
  "operation_mode_set self v w = RWBit_set self REG_CONF 12 2 False v w"

subsection \<open>The driver\<close>

definition device_not_found :: error where
  "device_not_found = RuntimeError ''Failed to find a HDC1080 on I2C bus!''"

definition wrong_mode_both :: error where
  "wrong_mode_both =
     RuntimeError ''Wrong mode, use temperature_and_humidity if mode == READ_BOTH_VALUES''"

definition wrong_mode_single :: error where
  "wrong_mode_single =
     RuntimeError ''Wrong mode, use temperature or humidity if mode == READ_SINGLE_VALUE''"

text \<open>
  \<^verbatim>\<open>HDC1080.__init__(self, i2c, address, mode)\<close>. The result is the instance, or the
  exception that left the constructor; the world is returned in both cases.
\<close>

definition HDC1080_init :: "int \<Rightarrow> int \<Rightarrow> world \<Rightarrow> (error + HDC1080) \<times> world" where
  "HDC1080_init address mode_arg w0 =
     (case call_bus (Bus address Open) w0 of
        (Nack, w1) \<Rightarrow> (Inl ValueError, w1)
      | (Ack bs, w1) \<Rightarrow>
          let self = \<lparr>i2c_device = address, mode = mode_arg\<rparr> in
          (case device_id_get self w1 of
             (Inl e, w2) \<Rightarrow> (Inl e, w2)
           | (Inr v, w2) \<Rightarrow>
               if v \<noteq> HDC1080_DEVICE_ID then (Inl device_not_found, w2)
               else
                 (case software_reset_set self 0x1 w2 of
                    (Inl e, w3) \<Rightarrow> (Inl e, w3)
                  | (Inr u3, w3) \<Rightarrow>
                      let w4 = sleep (15 / 1000) w3 in
                      (case temp_resolution_set self 0x00 w4 of
                         (Inl e, w5) \<Rightarrow> (Inl e, w5)
                       | (Inr u5, w5) \<Rightarrow>
                           (case humidity_resolution_set self 0x00 w5 of
                              (Inl e, w6) \<Rightarrow> (Inl e, w6)
                            | (Inr u6, w6) \<Rightarrow>
                                (case operation_mode_set self mode_arg w6 of
                                   (Inl e, w7) \<Rightarrow> (Inl e, w7)
                                 | (Inr u7, w7) \<Rightarrow> (Inr self, w7)))))))"

text \<open>
  \<^verbatim>\<open>_read_from_register\<close>. Leaving the \<^verbatim>\<open>with\<close> block releases the device, also
  when a transfer inside it raised.
\<close>

definition read_from_register :: "HDC1080 \<Rightarrow> int \<Rightarrow> string \<Rightarrow> world \<Rightarrow> (error + int) \<times> world" where
  "read_from_register self register struct_format w0 =
     (let a = i2c_device self;
          w1 = note_event (Bus a Enter) w0
      in
      if BUFFER w1 = [] then (Inl IndexError, note_event (Bus a Exit) w1)
      else
        let w2 = w1\<lparr>BUFFER := (BUFFER w1)[0 := of_int (register AND 0xFF)]\<rparr> in
        (case i2c_write a 1 w2 of
           (Inl e, w3) \<Rightarrow> (Inl e, note_event (Bus a Exit) w3)
         | (Inr u3, w3) \<Rightarrow>
             let w4 = sleep (635 / 10000) w3 in
             (case i2c_readinto a 1 3 w4 of
                (Inl e, w5) \<Rightarrow> (Inl e, note_event (Bus a Exit) w5)
              | (Inr u5, w5) \<Rightarrow>
                  let w6 = note_event (Bus a Exit) w5 in
                  (unpack_from struct_format (self_BUFFER self w6) 1, w6))))"

text \<open>
  \<^verbatim>\<open>_read_from_registers\<close>: \<^verbatim>\<open>readinto\<close> without \<^verbatim>\<open>end\<close> fills the buffer to
  its end. The two values are unpacked left to right.
\<close>

definition read_from_registers :: "HDC1080 \<Rightarrow> int \<Rightarrow> string \<Rightarrow> world \<Rightarrow> (error + int \<times> int) \<times> world" where
  "read_from_registers self register struct_format w0 =
     (let a = i2c_device self;
          w1 = note_event (Bus a Enter) w0
      in
      if BUFFER w1 = [] then (Inl IndexError, note_event (Bus a Exit) w1)
      else
        let w2 = w1\<lparr>BUFFER := (BUFFER w1)[0 := of_int (register AND 0xFF)]\<rparr> in
        (case i2c_write a 1 w2 of
           (Inl e, w3) \<Rightarrow> (Inl e, note_event (Bus a Exit) w3)
         | (Inr u3, w3) \<Rightarrow>
             let w4 = sleep (635 / 10000) w3 in
             (case i2c_readinto a 1 (length (BUFFER w4)) w4 of
                (Inl e, w5) \<Rightarrow> (Inl e, note_event (Bus a Exit) w5)
              | (Inr u5, w5) \<Rightarrow>
                  let w6 = note_event (Bus a Exit) w5 in
                  (case unpack_from struct_format (self_BUFFER self w6) 1 of
                     Inl e \<Rightarrow> (Inl e, w6)
                   | Inr v1 \<Rightarrow>
                       (case unpack_from struct_format (self_BUFFER self w6) 3 of
                          Inl e \<Rightarrow> (Inl e, w6)
                        | Inr v2 \<Rightarrow> (Inr (v1, v2), w6))))))"

definition temperature :: "HDC1080 \<Rightarrow> world \<Rightarrow> (error + rat) \<times> world" where
  "temperature self w =
     (if mode self = READ_BOTH_VALUES then (Inl wrong_mode_both, w)
      else
        (case read_from_register self REG_TEMP ''>h'' w of
           (Inl e, w') \<Rightarrow> (Inl e, w')
         | (Inr v, w') \<Rightarrow> (Inr (convert_to_celsius v), w')))"

definition humidity :: "HDC1080 \<Rightarrow> world \<Rightarrow> (error + rat) \<times> world" where
  "humidity self w =
     (if mode self = READ_BOTH_VALUES then (Inl wrong_mode_both, w)
      else
        (case read_from_register self REG_HUMI ''>h'' w of
           (Inl e, w') \<Rightarrow> (Inl e, w')
         | (Inr v, w') \<Rightarrow> (Inr (convert_to_relative_humidity v), w')))"

definition temperature_and_humidity :: "HDC1080 \<Rightarrow> world \<Rightarrow> (error + rat \<times> rat) \<times> world" where
  "temperature_and_humidity self w =
     (if mode self = READ_SINGLE_VALUE then (Inl wrong_mode_single, w)
      else
        (case read_from_registers self REG_TEMP ''>h'' w of
           (Inl e, w') \<Rightarrow> (Inl e, w')
         | (Inr (v1, v2), w') \<Rightarrow>
             (Inr (convert_to_celsius v1, convert_to_relative_humidity v2), w')))"

subsection \<open>Observing a run\<close>

text \<open>The events a run added to the trace: those of \<open>w'\<close> after the ones \<open>w\<close> had.\<close>

definition events_since :: "world \<Rightarrow> world \<Rightarrow> event list" where
  "events_since w w' = drop (length (trace w)) (trace w')"

text \<open>
  Whether every \<open>ReadInto\<close> of a trace comes after a \<open>Write\<close> and after sleeps that add
  up to \<open>bound\<close> seconds or more since the latest \<open>Write\<close>. The second argument is the time
  slept since the latest \<open>Write\<close>, \<open>None\<close> before the first one.
\<close>

fun waits_before_read :: "rat \<Rightarrow> rat option \<Rightarrow> event list \<Rightarrow> bool" where
  "waits_before_read bound since [] = True"
| "waits_before_read bound since (Sleep d # es) =
     waits_before_read bound (map_option (\<lambda>t. t + d) since) es"
| "waits_before_read bound since (Bus a (Write bs) # es) =
     waits_before_read bound (Some 0) es"
| "waits_before_read bound since (Bus a (ReadInto s e) # es) =
     (case since of
        None \<Rightarrow> False
      | Some t \<Rightarrow> bound \<le> t \<and> waits_before_read bound since es)"
| "waits_before_read bound since (Bus a c # es) = waits_before_read bound since es"

subsection \<open>A mock bus and some instances\<close>

text \<open>
  A bus that acknowledges every call, answers a read of a struct register with
  \<open>id_bytes\<close> and a \<open>readinto\<close> with the first bytes of \<open>data\<close>.
\<close>

definition mock_bus :: "byte list \<Rightarrow> byte list \<Rightarrow> event list \<Rightarrow> reply" where
  "mock_bus id_bytes data h =
     (case last h of
        Bus a (StructGet r f) \<Rightarrow> Ack id_bytes
      | Bus a (ReadInto s e) \<Rightarrow> Ack (take (e - s) data)
      | _ \<Rightarrow> Ack [])"

definition mock_world :: "byte list \<Rightarrow> byte list \<Rightarrow> world" where
  "mock_world id_bytes data =
     \<lparr>BUFFER = BUFFER_initial, trace = [], bus = mock_bus id_bytes data\<rparr>"

definition sensor_single :: HDC1080 where
  "sensor_single = \<lparr>i2c_device = HDC1080_I2CADDR_DEFAULT, mode = READ_SINGLE_VALUE\<rparr>"

definition sensor_both :: HDC1080 where
  "sensor_both = \<lparr>i2c_device = HDC1080_I2CADDR_DEFAULT, mode = READ_BOTH_VALUES\<rparr>"

definition sensor_other :: HDC1080 where
  "sensor_other = \<lparr>i2c_device = 0x41, mode = READ_SINGLE_VALUE\<rparr>"

definition sensor_mode2 :: HDC1080 where
  "sensor_mode2 = \<lparr>i2c_device = HDC1080_I2CADDR_DEFAULT, mode = 2\<rparr>"

section \<open>Properties\<close>

subsection \<open>Auxiliary facts\<close>

lemmas io_defs = note_event_def sleep_def call_bus_def i2c_write_def i2c_readinto_def

lemmas descriptor_defs = device_id_get_def ROUnaryStruct_get_def software_reset_set_def
  temp_resolution_set_def humidity_resolution_set_def operation_mode_set_def
  RWBit_set_def RWBits_set_def

lemma register_byte [simp]:
  "(of_int (REG_TEMP AND 0xFF) :: byte) = 0"
  "(of_int (REG_HUMI AND 0xFF) :: byte) = 1"
  "(of_int (REG_DEID AND 0xFF) :: byte) = 255"
  by (simp_all add: REG_TEMP_def REG_HUMI_def REG_DEID_def)

lemma buffer_of_length_5:
  assumes "length (BUFFER w) = 5"
  obtains x0 x1 x2 x3 x4 where "BUFFER w = [x0, x1, x2, x3, x4]"
  using assms by (auto simp: length_Suc_conv eval_nat_numeral)

text \<open>The two's complement reading of 16 bits is what \<^verbatim>\<open>'>h'\<close> unpacks.\<close>

lemma sint_16:
  assumes "0 \<le> v" and "v < 65536"
  shows "sint (word_of_int v :: 16 word) = (if v < 32768 then v else v - 65536)"
proof (cases "v < 32768")
  case True
  then have "(v + 32768) mod 65536 = v + 32768"
    using assms by simp
  with True show ?thesis
    by (simp add: int_word_sint)
next
  case False
  have "(v + 32768) mod 65536 = (v - 32768 + 65536) mod 65536"
    by (simp add: algebra_simps)
  also have "\<dots> = (v - 32768) mod 65536"
    by (simp only: mod_add_self2)
  also have "\<dots> = v - 32768"
    using False assms by simp
  finally show ?thesis
    using False by (simp add: int_word_sint)
qed

lemma byte_pair_range:
  "0 \<le> 256 * uint (hi :: byte) + uint (lo :: byte)"
  "256 * uint (hi :: byte) + uint (lo :: byte) < 65536"
  using uint_bounded [of hi] uint_bounded [of lo] by simp_all

lemma unpack_from_signed:
  assumes "offset + 2 \<le> length buffer"
  shows "unpack_from ''>h'' buffer offset =
           Inr (sint (word_of_int (256 * uint (buffer ! offset) + uint (buffer ! (offset + 1))) :: 16 word))"
proof -
  let ?v = "256 * uint (buffer ! offset) + uint (buffer ! (offset + 1))"
  have signed: "sint (word_of_int ?v :: 16 word) = (if ?v < 32768 then ?v else ?v - 65536)"
    by (rule sint_16) (rule byte_pair_range)+
  show ?thesis
    by (subst signed) (use assms in \<open>simp add: unpack_from_def Let_def\<close>)
qed

lemma unpack_from_unsigned:
  assumes "offset + 2 \<le> length buffer"
  shows "unpack_from ''>H'' buffer offset =
           Inr (256 * uint (buffer ! offset) + uint (buffer ! (offset + 1)))"
  using assms by (simp add: unpack_from_def Let_def)

text \<open>The raw values the driver converts lie in the signed 16-bit range.\<close>

lemma unpack_from_signed_range:
  assumes "unpack_from ''>h'' buffer offset = Inr v"
  shows "- 32768 \<le> v \<and> v < 32768"
proof -
  define x where "x = 256 * uint (buffer ! offset) + uint (buffer ! (offset + 1))"
  have "0 \<le> x" and "x < 65536"
    unfolding x_def by (rule byte_pair_range)+
  moreover have "v = (if x < 32768 then x else x - 65536)"
    using assms unfolding x_def by (auto simp: unpack_from_def Let_def split: if_splits)
  ultimately show ?thesis
    by (cases "x < 32768") simp_all
qed

text \<open>
  For a raw value of 16 bits, signed or unsigned, the conversions stay within multiples
  of \<open>2\<^sup>-\<^sup>1\<^sup>6\<close> with a numerator of less than 24 bits, at every step.
\<close>

lemma convert_to_celsius_dyadic:
  assumes "- 65536 \<le> r" and "r \<le> 65536"
  shows "convert_to_celsius r = of_int (165 * r - 2621440) / 2 ^ 16"
    and "\<bar>165 * r\<bar> < 2 ^ 24"
    and "\<bar>165 * r - 2621440\<bar> < 2 ^ 24"
  using assms by (simp_all add: convert_to_celsius_def field_simps)

lemma convert_to_relative_humidity_dyadic:
  assumes "- 65536 \<le> r" and "r \<le> 65536"
  shows "convert_to_relative_humidity r = of_int (100 * r) / 2 ^ 16"
    and "\<bar>100 * r\<bar> < 2 ^ 24"
  using assms by (simp_all add: convert_to_relative_humidity_def field_simps)

text \<open>A read of one register that the bus serves.\<close>

lemma read_from_register_ok:
  assumes "length (BUFFER w) = 5"
    and "bus w (trace w @ [Bus (i2c_device self) Enter,
           Bus (i2c_device self) (Write [of_int (register AND 0xFF)])]) = Ack r"
    and "bus w (trace w @ [Bus (i2c_device self) Enter,
           Bus (i2c_device self) (Write [of_int (register AND 0xFF)]),
           Sleep (635 / 10000), Bus (i2c_device self) (ReadInto 1 3)]) = Ack [b0, b1]"
  shows "read_from_register self register struct_format w =
           (unpack_from struct_format
              (of_int (register AND 0xFF) # b0 # b1 # drop 3 (BUFFER w)) 1,
            w\<lparr>BUFFER := of_int (register AND 0xFF) # b0 # b1 # drop 3 (BUFFER w),
              trace := trace w @ [Bus (i2c_device self) Enter,
                Bus (i2c_device self) (Write [of_int (register AND 0xFF)]),
                Sleep (635 / 10000), Bus (i2c_device self) (ReadInto 1 3),
                Bus (i2c_device self) Exit]\<rparr>)"
proof -
  obtain x0 x1 x2 x3 x4 where "BUFFER w = [x0, x1, x2, x3, x4]"
    using assms(1) by (rule buffer_of_length_5)
  then show ?thesis
    using assms(2,3) by (simp add: read_from_register_def io_defs self_BUFFER_def Let_def)
qed

text \<open>A read of both registers that the bus serves.\<close>

lemma read_from_registers_ok:
  assumes "length (BUFFER w) = 5"
    and "bus w (trace w @ [Bus (i2c_device self) Enter,
           Bus (i2c_device self) (Write [of_int (register AND 0xFF)])]) = Ack r"
    and "bus w (trace w @ [Bus (i2c_device self) Enter,
           Bus (i2c_device self) (Write [of_int (register AND 0xFF)]),
           Sleep (635 / 10000), Bus (i2c_device self) (ReadInto 1 5)]) = Ack [b0, b1, b2, b3]"
  shows "read_from_registers self register ''>h'' w =
           (Inr (sint (word_of_int (256 * uint b0 + uint b1) :: 16 word),
                 sint (word_of_int (256 * uint b2 + uint b3) :: 16 word)),
            w\<lparr>BUFFER := [of_int (register AND 0xFF), b0, b1, b2, b3],
              trace := trace w @ [Bus (i2c_device self) Enter,
                Bus (i2c_device self) (Write [of_int (register AND 0xFF)]),
                Sleep (635 / 10000), Bus (i2c_device self) (ReadInto 1 5),
                Bus (i2c_device self) Exit]\<rparr>)"
proof -
  obtain x0 x1 x2 x3 x4 where "BUFFER w = [x0, x1, x2, x3, x4]"
    using assms(1) by (rule buffer_of_length_5)
  then show ?thesis
    using assms(2,3)
    by (simp add: read_from_registers_def io_defs self_BUFFER_def Let_def unpack_from_signed
        eval_nat_numeral)
qed

text \<open>The events of a read, whatever the bus answers.\<close>

lemma read_from_register_events:
  "\<exists>bs. events_since w (snd (read_from_register self register struct_format w)) \<in>
     {[Bus (i2c_device self) Enter, Bus (i2c_device self) Exit],
      [Bus (i2c_device self) Enter, Bus (i2c_device self) (Write bs),
       Bus (i2c_device self) Exit],
      [Bus (i2c_device self) Enter, Bus (i2c_device self) (Write bs), Sleep (635 / 10000),
       Bus (i2c_device self) (ReadInto 1 3), Bus (i2c_device self) Exit]}"
  by (auto simp: read_from_register_def io_defs events_since_def Let_def
      split: reply.splits sum.splits)

lemma read_from_registers_events:
  "\<exists>bs n. events_since w (snd (read_from_registers self register struct_format w)) \<in>
     {[Bus (i2c_device self) Enter, Bus (i2c_device self) Exit],
      [Bus (i2c_device self) Enter, Bus (i2c_device self) (Write bs),
       Bus (i2c_device self) Exit],
      [Bus (i2c_device self) Enter, Bus (i2c_device self) (Write bs), Sleep (635 / 10000),
       Bus (i2c_device self) (ReadInto 1 n), Bus (i2c_device self) Exit]}"
  by (auto simp: read_from_registers_def io_defs events_since_def Let_def
      split: reply.splits sum.splits)

lemma waits_before_read_events:
  assumes "es \<in>
     {[Bus a Enter, Bus a Exit],
      [Bus a Enter, Bus a (Write bs), Bus a Exit],
      [Bus a Enter, Bus a (Write bs), Sleep (635 / 10000), Bus a (ReadInto 1 n), Bus a Exit]}"
  shows "waits_before_read (635 / 100000) None es"
  using assms by auto

lemma read_from_register_waits:
  "waits_before_read (635 / 100000) None
     (events_since w (snd (read_from_register self register struct_format w)))"
  using read_from_register_events [of w self register struct_format]
  by (blast intro: waits_before_read_events)

lemma read_from_registers_waits:
  "waits_before_read (635 / 100000) None
     (events_since w (snd (read_from_registers self register struct_format w)))"
  using read_from_registers_events [of w self register struct_format]
  by (blast intro: waits_before_read_events)

lemma read_from_register_errors:
  "fst (read_from_register self register struct_format w) \<in>
     {Inl IndexError, Inl OSError, Inl StructError} \<union> range Inr"
  by (auto simp: read_from_register_def io_defs unpack_from_def Let_def
      split: reply.splits sum.splits)

lemma read_from_registers_errors:
  "fst (read_from_registers self register struct_format w) \<in>
     {Inl IndexError, Inl OSError, Inl StructError} \<union> range Inr"
  by (auto simp: read_from_registers_def io_defs unpack_from_def Let_def
      split: reply.splits sum.splits)

lemma read_from_register_starts:
  assumes "BUFFER w \<noteq> []"
  shows "take 2 (events_since w (snd (read_from_register self register struct_format w))) =
           [Bus (i2c_device self) Enter, Bus (i2c_device self) (Write [of_int (register AND 0xFF)])]"
proof -
  obtain x xs where "BUFFER w = x # xs"
    using assms by (cases "BUFFER w") auto
  then show ?thesis
    by (auto simp: read_from_register_def io_defs events_since_def Let_def
        split: reply.splits sum.splits)
qed

lemma read_from_registers_starts:
  assumes "BUFFER w \<noteq> []"
  shows "take 2 (events_since w (snd (read_from_registers self register struct_format w))) =
           [Bus (i2c_device self) Enter, Bus (i2c_device self) (Write [of_int (register AND 0xFF)])]"
proof -
  obtain x xs where "BUFFER w = x # xs"
    using assms by (cases "BUFFER w") auto
  then show ?thesis
    by (auto simp: read_from_registers_def io_defs events_since_def Let_def
        split: reply.splits sum.splits)
qed

lemma read_from_registers_range:
  assumes "fst (read_from_registers self register ''>h'' w) = Inr (v1, v2)"
  shows "- 32768 \<le> v1 \<and> v1 < 32768 \<and> - 32768 \<le> v2 \<and> v2 < 32768"
proof -
  obtain b where "unpack_from ''>h'' b 1 = Inr v1" and "unpack_from ''>h'' b 3 = Inr v2"
    using assms
    by (auto simp: read_from_registers_def io_defs Let_def
        split: reply.splits sum.splits if_splits)
  then show ?thesis
    using unpack_from_signed_range by blast
qed

text \<open>
  Whatever the bus returns, the humidity of a combined read is below 50 and the
  temperature below 42.5: the raw values are read as signed.
\<close>

lemma temperature_and_humidity_range:
  assumes "fst (temperature_and_humidity self w) = Inr (t, h)"
  shows "- 245 / 2 \<le> t \<and> t < 85 / 2 \<and> - 50 \<le> h \<and> h < 50"
proof -
  obtain v1 v2 where r: "fst (read_from_registers self REG_TEMP ''>h'' w) = Inr (v1, v2)"
    and t: "t = convert_to_celsius v1" and h: "h = convert_to_relative_humidity v2"
    using assms
    by (auto simp: temperature_and_humidity_def split: if_splits prod.splits sum.splits)
  have "- 32768 \<le> v1 \<and> v1 < 32768 \<and> - 32768 \<le> v2 \<and> v2 < 32768"
    using r by (rule read_from_registers_range)
  then show ?thesis
    unfolding t h by (simp add: convert_to_celsius_def convert_to_relative_humidity_def field_simps)
qed

text \<open>The world a read operation leaves is the one its register read leaves.\<close>

lemma temperature_world:
  "snd (temperature self w) =
     (if mode self = READ_BOTH_VALUES then w
      else snd (read_from_register self REG_TEMP ''>h'' w))"
  by (simp add: temperature_def split: prod.splits sum.splits)

lemma humidity_world:
  "snd (humidity self w) =
     (if mode self = READ_BOTH_VALUES then w
      else snd (read_from_register self REG_HUMI ''>h'' w))"
  by (simp add: humidity_def split: prod.splits sum.splits)

lemma temperature_and_humidity_world:
  "snd (temperature_and_humidity self w) =
     (if mode self = READ_SINGLE_VALUE then w
      else snd (read_from_registers self REG_TEMP ''>h'' w))"
  by (simp add: temperature_and_humidity_def split: prod.splits sum.splits)

lemma events_since_self [simp]: "events_since w w = []"
  by (simp add: events_since_def)

text \<open>A read operation whose mode test passes fails only with an error of the transfer.\<close>

lemma temperature_errors:
  assumes "mode self \<noteq> READ_BOTH_VALUES"
  shows "fst (temperature self w) \<in>
     {Inl IndexError, Inl OSError, Inl StructError} \<union> range Inr"
  using assms read_from_register_errors [of self REG_TEMP "''>h''" w]
  by (cases "read_from_register self REG_TEMP ''>h'' w")
    (auto simp: temperature_def split: sum.splits)

lemma humidity_errors:
  assumes "mode self \<noteq> READ_BOTH_VALUES"
  shows "fst (humidity self w) \<in>
     {Inl IndexError, Inl OSError, Inl StructError} \<union> range Inr"
  using assms read_from_register_errors [of self REG_HUMI "''>h''" w]
  by (cases "read_from_register self REG_HUMI ''>h'' w")
    (auto simp: humidity_def split: sum.splits)

lemma temperature_and_humidity_errors:
  assumes "mode self \<noteq> READ_SINGLE_VALUE"
  shows "fst (temperature_and_humidity self w) \<in>
     {Inl IndexError, Inl OSError, Inl StructError} \<union> range Inr"
  using assms read_from_registers_errors [of self REG_TEMP "''>h''" w]
  by (cases "read_from_registers self REG_TEMP ''>h'' w")
    (auto simp: temperature_and_humidity_def split: sum.splits)

text \<open>What a constructor that returns an instance returns and did last.\<close>

lemma init_returns:
  assumes "fst (HDC1080_init address m w) = Inr d"
  shows "d = \<lparr>i2c_device = address, mode = m\<rparr>"
    and "last (trace (snd (HDC1080_init address m w))) =
           Bus address (BitSet REG_CONF 12 2 False m)"
  using assms
  by (auto simp: HDC1080_init_def descriptor_defs io_defs Let_def
      split: reply.splits sum.splits if_splits)

text \<open>The buffer keeps its five bytes through every read operation.\<close>

lemma read_from_register_length:
  assumes "length (BUFFER w) = 5"
  shows "length (BUFFER (snd (read_from_register self register struct_format w))) = 5"
  using assms
  by (auto simp: read_from_register_def io_defs Let_def split: reply.splits sum.splits)

lemma read_from_registers_length:
  assumes "length (BUFFER w) = 5"
  shows "length (BUFFER (snd (read_from_registers self register struct_format w))) = 5"
  using assms
  by (auto simp: read_from_registers_def io_defs Let_def split: reply.splits sum.splits)

lemma read_operations_length:
  assumes "length (BUFFER w) = 5"
  shows "length (BUFFER (snd (temperature self w))) = 5"
    and "length (BUFFER (snd (humidity self w))) = 5"
    and "length (BUFFER (snd (temperature_and_humidity self w))) = 5"
  using assms
  by (simp_all add: temperature_world humidity_world temperature_and_humidity_world
      read_from_register_length read_from_registers_length)

lemma init_keeps_buffer:
  "BUFFER (snd (HDC1080_init address m w)) = BUFFER w"
  by (auto simp: HDC1080_init_def descriptor_defs io_defs Let_def
      split: reply.splits sum.splits)

text \<open>The mock bus acknowledges every call.\<close>

lemma mock_bus_acks: "mock_bus id_bytes data h \<noteq> Nack"
  by (simp add: mock_bus_def split: event.splits call.splits)

lemma mock_world_acks: "bus (mock_world id_bytes data) h \<noteq> Nack"
  by (simp add: mock_world_def mock_bus_acks)

text \<open>
  A constructor on a bus that acknowledges every call and answers the read of the device
  ID with the bytes 0x10 0x50 returns the instance, for every address and every mode,
  after all seven calls.
\<close>

lemma init_served:
  assumes acks: "\<forall>es. bus w (trace w @ es) \<noteq> Nack"
    and ident: "bus w (trace w @ [Bus address Open, Bus address (StructGet REG_DEID ''>H'')]) =
      Ack [0x10, 0x50]"
  shows "HDC1080_init address m w =
           (Inr \<lparr>i2c_device = address, mode = m\<rparr>,
            w\<lparr>trace := trace w @
               [Bus address Open,
                Bus address (StructGet REG_DEID ''>H''),
                Bus address (BitSet REG_CONF 15 2 False 1),
                Sleep (15 / 1000),
                Bus address (BitSet REG_CONF 10 2 False 0),
                Bus address (BitsSet 2 REG_CONF 8 2 False 0),
                Bus address (BitSet REG_CONF 12 2 False m)]\<rparr>)"
proof -
  have a1: "bus w (trace w @ [Bus address Open]) \<noteq> Nack"
    using acks by blast
  have a3: "bus w (trace w @ [Bus address Open, Bus address (StructGet REG_DEID ''>H''),
      Bus address (BitSet REG_CONF 15 2 False 1)]) \<noteq> Nack"
    using acks by blast
  have a5: "bus w (trace w @ [Bus address Open, Bus address (StructGet REG_DEID ''>H''),
      Bus address (BitSet REG_CONF 15 2 False 1), Sleep (15 / 1000),
      Bus address (BitSet REG_CONF 10 2 False 0)]) \<noteq> Nack"
    using acks by blast
  have a6: "bus w (trace w @ [Bus address Open, Bus address (StructGet REG_DEID ''>H''),
      Bus address (BitSet REG_CONF 15 2 False 1), Sleep (15 / 1000),
      Bus address (BitSet REG_CONF 10 2 False 0),
      Bus address (BitsSet 2 REG_CONF 8 2 False 0)]) \<noteq> Nack"
    using acks by blast
  have a7: "bus w (trace w @ [Bus address Open, Bus address (StructGet REG_DEID ''>H''),
      Bus address (BitSet REG_CONF 15 2 False 1), Sleep (15 / 1000),
      Bus address (BitSet REG_CONF 10 2 False 0),
      Bus address (BitsSet 2 REG_CONF 8 2 False 0),
      Bus address (BitSet REG_CONF 12 2 False m)]) \<noteq> Nack"
    using acks by blast
  show ?thesis
    using a1 ident a3 a5 a6 a7
    by (simp add: HDC1080_init_def descriptor_defs io_defs unpack_from_def Let_def
        HDC1080_DEVICE_ID_def split: reply.splits)
qed

text \<open>A read that returns a value made all five calls.\<close>

lemma read_from_register_value_events:
  assumes "fst (read_from_register self register struct_format w) = Inr v"
  shows "events_since w (snd (read_from_register self register struct_format w)) =
     [Bus (i2c_device self) Enter,
      Bus (i2c_device self) (Write [of_int (register AND 0xFF)]),
      Sleep (635 / 10000),
      Bus (i2c_device self) (ReadInto 1 3),
      Bus (i2c_device self) Exit]"
proof (cases "BUFFER w")
  case Nil
  then show ?thesis
    using assms by (simp add: read_from_register_def io_defs Let_def)
next
  case (Cons x xs)
  then show ?thesis
    using assms
    by (auto simp: read_from_register_def io_defs events_since_def Let_def
        split: reply.splits sum.splits if_splits)
qed

lemma read_from_registers_value_events:
  assumes "fst (read_from_registers self register struct_format w) = Inr v"
  shows "events_since w (snd (read_from_registers self register struct_format w)) =
     [Bus (i2c_device self) Enter,
      Bus (i2c_device self) (Write [of_int (register AND 0xFF)]),
      Sleep (635 / 10000),
      Bus (i2c_device self) (ReadInto 1 (length (BUFFER w))),
      Bus (i2c_device self) Exit]"
proof (cases "BUFFER w")
  case Nil
  then show ?thesis
    using assms by (simp add: read_from_registers_def io_defs Let_def)
next
  case (Cons x xs)
  then show ?thesis
    using assms
    by (auto simp: read_from_registers_def io_defs events_since_def Let_def
        split: reply.splits sum.splits if_splits)
qed

text \<open>A read operation that returns a value passed its mode test and read its register.\<close>

lemma temperature_value:
  assumes "fst (temperature self w) = Inr t"
  shows "mode self \<noteq> READ_BOTH_VALUES"
    and "\<exists>v. fst (read_from_register self REG_TEMP ''>h'' w) = Inr v"
  using assms
  by (auto simp: temperature_def split: if_splits prod.splits sum.splits)

lemma humidity_value:
  assumes "fst (humidity self w) = Inr h"
  shows "mode self \<noteq> READ_BOTH_VALUES"
    and "\<exists>v. fst (read_from_register self REG_HUMI ''>h'' w) = Inr v"
  using assms
  by (auto simp: humidity_def split: if_splits prod.splits sum.splits)

lemma temperature_and_humidity_value:
  assumes "fst (temperature_and_humidity self w) = Inr th"
  shows "mode self \<noteq> READ_SINGLE_VALUE"
    and "\<exists>v. fst (read_from_registers self REG_TEMP ''>h'' w) = Inr v"
  using assms
  by (auto simp: temperature_and_humidity_def split: if_splits prod.splits sum.splits)

lemma temperature_value_events:
  assumes "fst (temperature self w) = Inr t"
  shows "events_since w (snd (temperature self w)) =
     [Bus (i2c_device self) Enter, Bus (i2c_device self) (Write [0x00]), Sleep (635 / 10000),
      Bus (i2c_device self) (ReadInto 1 3), Bus (i2c_device self) Exit]"
proof -
  obtain v where "fst (read_from_register self REG_TEMP ''>h'' w) = Inr v"
    using temperature_value(2) [OF assms] by blast
  then show ?thesis
    using temperature_value(1) [OF assms] read_from_register_value_events [of self REG_TEMP "''>h''" w v]
    by (simp add: temperature_world)
qed

lemma humidity_value_events:
  assumes "fst (humidity self w) = Inr h"
  shows "events_since w (snd (humidity self w)) =
     [Bus (i2c_device self) Enter, Bus (i2c_device self) (Write [0x01]), Sleep (635 / 10000),
      Bus (i2c_device self) (ReadInto 1 3), Bus (i2c_device self) Exit]"
proof -
  obtain v where "fst (read_from_register self REG_HUMI ''>h'' w) = Inr v"
    using humidity_value(2) [OF assms] by blast
  then show ?thesis
    using humidity_value(1) [OF assms] read_from_register_value_events [of self REG_HUMI "''>h''" w v]
    by (simp add: humidity_world)
qed

lemma temperature_and_humidity_value_events:
  assumes "fst (temperature_and_humidity self w) = Inr th"
  shows "events_since w (snd (temperature_and_humidity self w)) =
     [Bus (i2c_device self) Enter, Bus (i2c_device self) (Write [0x00]), Sleep (635 / 10000),
      Bus (i2c_device self) (ReadInto 1 (length (BUFFER w))), Bus (i2c_device self) Exit]"
proof -
  obtain v where "fst (read_from_registers self REG_TEMP ''>h'' w) = Inr v"
    using temperature_and_humidity_value(2) [OF assms] by blast
  then show ?thesis
    using temperature_and_humidity_value(1) [OF assms]
      read_from_registers_value_events [of self REG_TEMP "''>h''" w v]
    by (simp add: temperature_and_humidity_world)
qed

text \<open>The values of the read operations that the bus serves.\<close>

lemma temperature_served:
  assumes "mode self \<noteq> READ_BOTH_VALUES" and "length (BUFFER w) = 5"
    and "bus w (trace w @ [Bus (i2c_device self) Enter,
           Bus (i2c_device self) (Write [0x00])]) = Ack r"
    and "bus w (trace w @ [Bus (i2c_device self) Enter, Bus (i2c_device self) (Write [0x00]),
           Sleep (635 / 10000), Bus (i2c_device self) (ReadInto 1 3)]) = Ack [b0, b1]"
  shows "fst (temperature self w) =
     Inr (convert_to_celsius (sint (word_of_int (256 * uint b0 + uint b1) :: 16 word)))"
  using assms read_from_register_ok [of w self REG_TEMP r b0 b1 "''>h''"]
    unpack_from_signed [of 1 "0x00 # b0 # b1 # drop 3 (BUFFER w)"]
  by (simp add: temperature_def)

lemma humidity_served:
  assumes "mode self \<noteq> READ_BOTH_VALUES" and "length (BUFFER w) = 5"
    and "bus w (trace w @ [Bus (i2c_device self) Enter,
           Bus (i2c_device self) (Write [0x01])]) = Ack r"
    and "bus w (trace w @ [Bus (i2c_device self) Enter, Bus (i2c_device self) (Write [0x01]),
           Sleep (635 / 10000), Bus (i2c_device self) (ReadInto 1 3)]) = Ack [b0, b1]"
  shows "fst (humidity self w) =
     Inr (convert_to_relative_humidity
            (sint (word_of_int (256 * uint b0 + uint b1) :: 16 word)))"
  using assms read_from_register_ok [of w self REG_HUMI r b0 b1 "''>h''"]
    unpack_from_signed [of 1 "0x01 # b0 # b1 # drop 3 (BUFFER w)"]
  by (simp add: humidity_def)

lemma temperature_and_humidity_served:
  assumes "mode self \<noteq> READ_SINGLE_VALUE" and "length (BUFFER w) = 5"
    and "bus w (trace w @ [Bus (i2c_device self) Enter,
           Bus (i2c_device self) (Write [0x00])]) = Ack r"
    and "bus w (trace w @ [Bus (i2c_device self) Enter, Bus (i2c_device self) (Write [0x00]),
           Sleep (635 / 10000), Bus (i2c_device self) (ReadInto 1 5)]) = Ack [b0, b1, b2, b3]"
  shows "fst (temperature_and_humidity self w) =
     Inr (convert_to_celsius (sint (word_of_int (256 * uint b0 + uint b1) :: 16 word)),
          convert_to_relative_humidity
            (sint (word_of_int (256 * uint b2 + uint b3) :: 16 word)))"
  using assms read_from_registers_ok [of w self REG_TEMP r b0 b1 b2 b3]
  by (simp add: temperature_and_humidity_def)

subsection \<open>The claims\<close>

text \<open>
  C1. In combined mode, with a bus that returns the bytes 0x00 0x00 for the temperature
  and 0xFF 0xFF for the humidity, \<open>temperature_and_humidity\<close> returns -40 for the
  temperature and -100/65536 (about -0.0015) for the humidity, not about 100: the two
  bytes 0xFF 0xFF are unpacked as the signed value -1.
\<close>

theorem read_both_all_ones_humidity:
  "fst (temperature_and_humidity sensor_both (mock_world [] [0x00, 0x00, 0xFF, 0xFF])) =
     Inr (- 40, - (100 / 65536))"
  by code_simp

text \<open>
  C2. The temperature conversion maps a raw value \<open>r\<close> to \<open>r / 65536 * 165 - 40\<close>;
  it maps 0 to -40 and 65535 to 125 - 165/65536, which is within 0.003 of 125.
\<close>

theorem convert_to_celsius_formula:
  "convert_to_celsius r = of_int r / 65536 * 165 - 40 \<and>
   convert_to_celsius 0 = - 40 \<and>
   convert_to_celsius 65535 = 125 - 165 / 65536 \<and>
   \<bar>convert_to_celsius 65535 - 125\<bar> < 3 / 1000"
  by (simp add: convert_to_celsius_def)

text \<open>
  C3. The humidity conversion maps a raw value \<open>r\<close> to \<open>r / 65536 * 100\<close>; it maps
  0 to 0 and 65535 to 100 - 100/65536, which is within 0.002 of 100.
\<close>

theorem convert_to_relative_humidity_formula:
  "convert_to_relative_humidity r = of_int r / 65536 * 100 \<and>
   convert_to_relative_humidity 0 = 0 \<and>
   convert_to_relative_humidity 65535 = 100 - 100 / 65536 \<and>
   \<bar>convert_to_relative_humidity 65535 - 100\<bar> < 2 / 1000"
  by (simp add: convert_to_relative_humidity_def)

text \<open>
  C4. When the stored mode is \<open>READ_BOTH_VALUES\<close>, \<open>temperature\<close> and \<open>humidity\<close>
  raise the wrong-mode error and leave the world as it was: no call reaches the bus.
  When the stored mode is \<open>READ_SINGLE_VALUE\<close>, \<open>temperature_and_humidity\<close> does.
\<close>

theorem wrong_mode_without_transfer:
  "(mode self = READ_BOTH_VALUES \<longrightarrow>
      temperature self w = (Inl wrong_mode_both, w) \<and>
      humidity self w = (Inl wrong_mode_both, w) \<and>
      events_since w (snd (temperature self w)) = [] \<and>
      events_since w (snd (humidity self w)) = []) \<and>
   (mode self = READ_SINGLE_VALUE \<longrightarrow>
      temperature_and_humidity self w = (Inl wrong_mode_single, w) \<and>
      events_since w (snd (temperature_and_humidity self w)) = [])"
  by (simp add: temperature_def humidity_def temperature_and_humidity_def events_since_def)

theorem wrong_mode_without_transfer_witness:
  "mode sensor_both = READ_BOTH_VALUES \<and>
   fst (temperature sensor_both (mock_world [] [1, 2, 3, 4])) = Inl wrong_mode_both \<and>
   fst (humidity sensor_both (mock_world [] [1, 2, 3, 4])) = Inl wrong_mode_both \<and>
   trace (snd (temperature sensor_both (mock_world [] [1, 2, 3, 4]))) = [] \<and>
   trace (snd (humidity sensor_both (mock_world [] [1, 2, 3, 4]))) = [] \<and>
   mode sensor_single = READ_SINGLE_VALUE \<and>
   fst (temperature_and_humidity sensor_single (mock_world [] [1, 2, 3, 4])) =
     Inl wrong_mode_single \<and>
   trace (snd (temperature_and_humidity sensor_single (mock_world [] [1, 2, 3, 4]))) = []"
proof -
  have both: "mode sensor_both = READ_BOTH_VALUES"
    and single: "mode sensor_single = READ_SINGLE_VALUE"
    by (simp_all add: sensor_both_def sensor_single_def)
  have "trace (mock_world [] [1, 2, 3, 4]) = []"
    by (simp add: mock_world_def)
  then show ?thesis
    using both single
      wrong_mode_without_transfer [of sensor_both "mock_world [] [1, 2, 3, 4]"]
      wrong_mode_without_transfer [of sensor_single "mock_world [] [1, 2, 3, 4]"]
    by simp
qed

text \<open>
  C5. The constructor reads the device-ID register 0xFF with the format of a big-endian
  unsigned short. When the device opens and the two bytes read are \<open>hi\<close> and \<open>lo\<close> with
  \<open>256 * hi + lo\<close> other than 0x1050, the constructor raises the device-not-found error:
  no instance is returned, and the only calls made are opening the device and reading
  the register, so no reset and no configuration was written.
\<close>

theorem init_device_not_found:
  assumes "bus w (trace w @ [Bus address Open]) = Ack r"
    and "bus w (trace w @ [Bus address Open, Bus address (StructGet 0xFF ''>H'')]) =
           Ack [hi, lo]"
    and "256 * uint hi + uint lo \<noteq> 0x1050"
  shows "HDC1080_init address m w =
           (Inl device_not_found,
            w\<lparr>trace := trace w @ [Bus address Open, Bus address (StructGet 0xFF ''>H'')]\<rparr>)"
  using assms
  by (simp add: HDC1080_init_def descriptor_defs io_defs unpack_from_def Let_def
      REG_DEID_def HDC1080_DEVICE_ID_def)

theorem init_device_not_found_witness:
  "bus (mock_world [0x10, 0x51] []) (trace (mock_world [0x10, 0x51] []) @ [Bus 0x40 Open]) =
     Ack [] \<and>
   bus (mock_world [0x10, 0x51] [])
     (trace (mock_world [0x10, 0x51] []) @ [Bus 0x40 Open, Bus 0x40 (StructGet 0xFF ''>H'')]) =
     Ack [0x10, 0x51] \<and>
   256 * uint (0x10 :: byte) + uint (0x51 :: byte) \<noteq> 0x1050 \<and>
   fst (HDC1080_init 0x40 READ_SINGLE_VALUE (mock_world [0x10, 0x51] [])) =
     Inl device_not_found \<and>
   trace (snd (HDC1080_init 0x40 READ_SINGLE_VALUE (mock_world [0x10, 0x51] []))) =
     [Bus 0x40 Open, Bus 0x40 (StructGet 0xFF ''>H'')]"
proof -
  have h1: "bus (mock_world [0x10, 0x51] [])
      (trace (mock_world [0x10, 0x51] []) @ [Bus 0x40 Open]) = Ack []"
    by (simp add: mock_world_def mock_bus_def)
  have h2: "bus (mock_world [0x10, 0x51] [])
      (trace (mock_world [0x10, 0x51] []) @ [Bus 0x40 Open, Bus 0x40 (StructGet 0xFF ''>H'')]) =
      Ack [0x10, 0x51]"
    by (simp add: mock_world_def mock_bus_def)
  have h3: "256 * uint (0x10 :: byte) + uint (0x51 :: byte) \<noteq> 0x1050"
    by simp
  have t: "trace (mock_world [0x10, 0x51] []) = []"
    by (simp add: mock_world_def)
  show ?thesis
    using h1 h2 h3 t init_device_not_found [OF h1 h2 h3, of READ_SINGLE_VALUE]
    by simp
qed

text \<open>
  C6. The constructor makes its calls in this order: it opens the device, reads the
  device ID, sets the software-reset bit (bit 15 of the configuration register 0x02),
  sleeps 0.015 seconds, and then clears the temperature-resolution bit (bit 10), clears
  the two humidity-resolution bits (from bit 8) and writes the requested mode to the
  operation-mode bit (bit 12). A constructor that fails made a first part of these calls
  and no other; one that returns an instance made all of them. On a bus that
  acknowledges every call and answers the read of the device ID with 0x10 0x50, the
  constructor makes all seven calls and returns the instance, for every address and
  every mode.
\<close>

theorem init_order:
  "trace (snd (HDC1080_init address m w)) =
     trace w @ events_since w (snd (HDC1080_init address m w)) \<and>
   prefix (events_since w (snd (HDC1080_init address m w)))
     [Bus address Open,
      Bus address (StructGet REG_DEID ''>H''),
      Bus address (BitSet REG_CONF 15 2 False 1),
      Sleep (15 / 1000),
      Bus address (BitSet REG_CONF 10 2 False 0),
      Bus address (BitsSet 2 REG_CONF 8 2 False 0),
      Bus address (BitSet REG_CONF 12 2 False m)] \<and>
   (fst (HDC1080_init address m w) = Inr self \<longrightarrow>
      events_since w (snd (HDC1080_init address m w)) =
        [Bus address Open,
         Bus address (StructGet REG_DEID ''>H''),
         Bus address (BitSet REG_CONF 15 2 False 1),
         Sleep (15 / 1000),
         Bus address (BitSet REG_CONF 10 2 False 0),
         Bus address (BitsSet 2 REG_CONF 8 2 False 0),
         Bus address (BitSet REG_CONF 12 2 False m)]) \<and>
   ((\<forall>es. bus w (trace w @ es) \<noteq> Nack) \<and>
    bus w (trace w @ [Bus address Open, Bus address (StructGet REG_DEID ''>H'')]) =
      Ack [0x10, 0x50] \<longrightarrow>
      HDC1080_init address m w =
        (Inr \<lparr>i2c_device = address, mode = m\<rparr>,
         w\<lparr>trace := trace w @
            [Bus address Open,
             Bus address (StructGet REG_DEID ''>H''),
             Bus address (BitSet REG_CONF 15 2 False 1),
             Sleep (15 / 1000),
             Bus address (BitSet REG_CONF 10 2 False 0),
             Bus address (BitsSet 2 REG_CONF 8 2 False 0),
             Bus address (BitSet REG_CONF 12 2 False m)]\<rparr>))"
proof -
  have grows: "trace (snd (HDC1080_init address m w)) =
      trace w @ events_since w (snd (HDC1080_init address m w))"
    by (auto simp: HDC1080_init_def descriptor_defs io_defs events_since_def Let_def
        split: reply.splits sum.splits)
  have part: "prefix (events_since w (snd (HDC1080_init address m w)))
     [Bus address Open,
      Bus address (StructGet REG_DEID ''>H''),
      Bus address (BitSet REG_CONF 15 2 False 1),
      Sleep (15 / 1000),
      Bus address (BitSet REG_CONF 10 2 False 0),
      Bus address (BitsSet 2 REG_CONF 8 2 False 0),
      Bus address (BitSet REG_CONF 12 2 False m)]"
    by (auto simp: HDC1080_init_def descriptor_defs io_defs events_since_def Let_def
        split: reply.splits sum.splits)
  have whole: "events_since w (snd (HDC1080_init address m w)) =
        [Bus address Open,
         Bus address (StructGet REG_DEID ''>H''),
         Bus address (BitSet REG_CONF 15 2 False 1),
         Sleep (15 / 1000),
         Bus address (BitSet REG_CONF 10 2 False 0),
         Bus address (BitsSet 2 REG_CONF 8 2 False 0),
         Bus address (BitSet REG_CONF 12 2 False m)]"
    if "fst (HDC1080_init address m w) = Inr self"
    using that
    by (auto simp: HDC1080_init_def descriptor_defs io_defs events_since_def Let_def
        split: reply.splits sum.splits if_splits)
  show ?thesis
    using grows part whole init_served [of w address m] by blast
qed

theorem init_order_witness:
  "(\<forall>es. bus (mock_world [0x10, 0x50] []) (trace (mock_world [0x10, 0x50] []) @ es) \<noteq> Nack) \<and>
   bus (mock_world [0x10, 0x50] [])
     (trace (mock_world [0x10, 0x50] []) @ [Bus 0x40 Open, Bus 0x40 (StructGet 0xFF ''>H'')]) =
     Ack [0x10, 0x50] \<and>
   fst (HDC1080_init 0x40 READ_SINGLE_VALUE (mock_world [0x10, 0x50] [])) =
     Inr sensor_single \<and>
   trace (snd (HDC1080_init 0x40 READ_SINGLE_VALUE (mock_world [0x10, 0x50] []))) =
     [Bus 0x40 Open,
      Bus 0x40 (StructGet 0xFF ''>H''),
      Bus 0x40 (BitSet 0x02 15 2 False 1),
      Sleep (15 / 1000),
      Bus 0x40 (BitSet 0x02 10 2 False 0),
      Bus 0x40 (BitsSet 2 0x02 8 2 False 0),
      Bus 0x40 (BitSet 0x02 12 2 False 0)] \<and>
   fst (HDC1080_init 0x41 7 (mock_world [0x10, 0x50] [])) =
     Inr \<lparr>i2c_device = 0x41, mode = 7\<rparr> \<and>
   last (trace (snd (HDC1080_init 0x41 7 (mock_world [0x10, 0x50] [])))) =
     Bus 0x41 (BitSet 0x02 12 2 False 7)"
proof -
  let ?w = "mock_world [0x10, 0x50] []"
  have acks: "\<forall>es. bus ?w (trace ?w @ es) \<noteq> Nack"
    by (simp add: mock_world_acks)
  have t: "trace ?w = []"
    by (simp add: mock_world_def)
  have ident: "bus ?w (trace ?w @ [Bus a Open, Bus a (StructGet REG_DEID ''>H'')]) =
      Ack [0x10, 0x50]" for a
    by (simp add: mock_world_def mock_bus_def)
  have one: "HDC1080_init 0x40 READ_SINGLE_VALUE ?w =
        (Inr \<lparr>i2c_device = 0x40, mode = READ_SINGLE_VALUE\<rparr>,
         ?w\<lparr>trace := trace ?w @
            [Bus 0x40 Open,
             Bus 0x40 (StructGet REG_DEID ''>H''),
             Bus 0x40 (BitSet REG_CONF 15 2 False 1),
             Sleep (15 / 1000),
             Bus 0x40 (BitSet REG_CONF 10 2 False 0),
             Bus 0x40 (BitsSet 2 REG_CONF 8 2 False 0),
             Bus 0x40 (BitSet REG_CONF 12 2 False READ_SINGLE_VALUE)]\<rparr>)"
    using acks ident [of "0x40"]
      init_order [where address = "0x40" and m = READ_SINGLE_VALUE and w = ?w]
    by blast
  have two: "HDC1080_init 0x41 7 ?w =
        (Inr \<lparr>i2c_device = 0x41, mode = 7\<rparr>,
         ?w\<lparr>trace := trace ?w @
            [Bus 0x41 Open,
             Bus 0x41 (StructGet REG_DEID ''>H''),
             Bus 0x41 (BitSet REG_CONF 15 2 False 1),
             Sleep (15 / 1000),
             Bus 0x41 (BitSet REG_CONF 10 2 False 0),
             Bus 0x41 (BitsSet 2 REG_CONF 8 2 False 0),
             Bus 0x41 (BitSet REG_CONF 12 2 False 7)]\<rparr>)"
    using acks ident [of "0x41"]
      init_order [where address = "0x41" and m = 7 and w = ?w]
    by blast
  show ?thesis
    using acks ident [of "0x40"] t one two
    by (simp add: sensor_single_def HDC1080_I2CADDR_DEFAULT_def REG_DEID_def
        REG_CONF_def READ_SINGLE_VALUE_def)
qed

text \<open>
  C7. In every read operation, each \<open>readinto\<close> comes after the write that selects the
  register and after a sleep of at least 6.35 ms (0.00635 seconds) since that write. The
  sleep the code asks for is 0.0635 seconds. A read operation that returns a value has
  entered the device, written the register address, slept 0.0635 seconds, read, and left
  the device, in this order and with no other call; and each read operation returns a
  value when the bus serves it.
\<close>

theorem reads_wait:
  "waits_before_read (635 / 100000) None (events_since w (snd (temperature self w))) \<and>
   waits_before_read (635 / 100000) None (events_since w (snd (humidity self w))) \<and>
   waits_before_read (635 / 100000) None
     (events_since w (snd (temperature_and_humidity self w))) \<and>
   (fst (temperature self w) = Inr t \<longrightarrow>
      events_since w (snd (temperature self w)) =
        [Bus (i2c_device self) Enter, Bus (i2c_device self) (Write [0x00]),
         Sleep (635 / 10000), Bus (i2c_device self) (ReadInto 1 3),
         Bus (i2c_device self) Exit]) \<and>
   (fst (humidity self w) = Inr h \<longrightarrow>
      events_since w (snd (humidity self w)) =
        [Bus (i2c_device self) Enter, Bus (i2c_device self) (Write [0x01]),
         Sleep (635 / 10000), Bus (i2c_device self) (ReadInto 1 3),
         Bus (i2c_device self) Exit]) \<and>
   (fst (temperature_and_humidity self w) = Inr th \<longrightarrow>
      events_since w (snd (temperature_and_humidity self w)) =
        [Bus (i2c_device self) Enter, Bus (i2c_device self) (Write [0x00]),
         Sleep (635 / 10000), Bus (i2c_device self) (ReadInto 1 (length (BUFFER w))),
         Bus (i2c_device self) Exit]) \<and>
   (mode self \<noteq> READ_BOTH_VALUES \<and> length (BUFFER w) = 5 \<and>
    bus w (trace w @ [Bus (i2c_device self) Enter, Bus (i2c_device self) (Write [0x00])]) =
      Ack rt \<and>
    bus w (trace w @ [Bus (i2c_device self) Enter, Bus (i2c_device self) (Write [0x00]),
      Sleep (635 / 10000), Bus (i2c_device self) (ReadInto 1 3)]) = Ack [t0, t1] \<longrightarrow>
      fst (temperature self w) =
        Inr (convert_to_celsius (sint (word_of_int (256 * uint t0 + uint t1) :: 16 word)))) \<and>
   (mode self \<noteq> READ_BOTH_VALUES \<and> length (BUFFER w) = 5 \<and>
    bus w (trace w @ [Bus (i2c_device self) Enter, Bus (i2c_device self) (Write [0x01])]) =
      Ack rh \<and>
    bus w (trace w @ [Bus (i2c_device self) Enter, Bus (i2c_device self) (Write [0x01]),
      Sleep (635 / 10000), Bus (i2c_device self) (ReadInto 1 3)]) = Ack [h0, h1] \<longrightarrow>
      fst (humidity self w) =
        Inr (convert_to_relative_humidity
               (sint (word_of_int (256 * uint h0 + uint h1) :: 16 word)))) \<and>
   (mode self \<noteq> READ_SINGLE_VALUE \<and> length (BUFFER w) = 5 \<and>
    bus w (trace w @ [Bus (i2c_device self) Enter, Bus (i2c_device self) (Write [0x00])]) =
      Ack rb \<and>
    bus w (trace w @ [Bus (i2c_device self) Enter, Bus (i2c_device self) (Write [0x00]),
      Sleep (635 / 10000), Bus (i2c_device self) (ReadInto 1 5)]) = Ack [c0, c1, c2, c3] \<longrightarrow>
      fst (temperature_and_humidity self w) =
        Inr (convert_to_celsius (sint (word_of_int (256 * uint c0 + uint c1) :: 16 word)),
             convert_to_relative_humidity
               (sint (word_of_int (256 * uint c2 + uint c3) :: 16 word))))"
proof -
  have waits: "waits_before_read (635 / 100000) None (events_since w (snd (temperature self w))) \<and>
      waits_before_read (635 / 100000) None (events_since w (snd (humidity self w))) \<and>
      waits_before_read (635 / 100000) None
        (events_since w (snd (temperature_and_humidity self w)))"
    using read_from_register_waits [of w self REG_TEMP "''>h''"]
      read_from_register_waits [of w self REG_HUMI "''>h''"]
      read_from_registers_waits [of w self REG_TEMP "''>h''"]
    by (simp add: temperature_world humidity_world temperature_and_humidity_world)
  show ?thesis
    using waits
      temperature_value_events [of self w t]
      humidity_value_events [of self w h]
      temperature_and_humidity_value_events [of self w th]
      temperature_served [of self w rt t0 t1]
      humidity_served [of self w rh h0 h1]
      temperature_and_humidity_served [of self w rb c0 c1 c2 c3]
    by blast
qed

theorem reads_wait_witness:
  "fst (temperature sensor_single (mock_world [] [0x66, 0x64, 0x33, 0x00])) =
     Inr (convert_to_celsius 26212) \<and>
   trace (snd (temperature sensor_single (mock_world [] [0x66, 0x64, 0x33, 0x00]))) =
     [Bus 0x40 Enter, Bus 0x40 (Write [0x00]), Sleep (635 / 10000), Bus 0x40 (ReadInto 1 3),
      Bus 0x40 Exit] \<and>
   fst (humidity sensor_single (mock_world [] [0x66, 0x64, 0x33, 0x00])) =
     Inr (convert_to_relative_humidity 26212) \<and>
   trace (snd (humidity sensor_single (mock_world [] [0x66, 0x64, 0x33, 0x00]))) =
     [Bus 0x40 Enter, Bus 0x40 (Write [0x01]), Sleep (635 / 10000), Bus 0x40 (ReadInto 1 3),
      Bus 0x40 Exit] \<and>
   fst (temperature_and_humidity sensor_both (mock_world [] [0x66, 0x64, 0x33, 0x00])) =
     Inr (convert_to_celsius 26212, convert_to_relative_humidity 13056) \<and>
   trace (snd (temperature_and_humidity sensor_both (mock_world [] [0x66, 0x64, 0x33, 0x00]))) =
     [Bus 0x40 Enter, Bus 0x40 (Write [0x00]), Sleep (635 / 10000), Bus 0x40 (ReadInto 1 5),
      Bus 0x40 Exit] \<and>
   waits_before_read (635 / 100000) None
     (trace (snd (humidity sensor_single (mock_world [] [0x66, 0x64, 0x33, 0x00])))) \<and>
   \<not> waits_before_read (636 / 10000) None
     (trace (snd (humidity sensor_single (mock_world [] [0x66, 0x64, 0x33, 0x00]))))"
proof -
  let ?w = "mock_world [] [0x66, 0x64, 0x33, 0x00]"
  have t: "trace ?w = []" and len: "length (BUFFER ?w) = 5"
    by (simp_all add: mock_world_def BUFFER_initial_def)
  have a1: "i2c_device sensor_single = 0x40" and a2: "i2c_device sensor_both = 0x40"
    by (simp_all add: sensor_single_def sensor_both_def HDC1080_I2CADDR_DEFAULT_def)
  have m1: "mode sensor_single \<noteq> READ_BOTH_VALUES"
    and m2: "mode sensor_both \<noteq> READ_SINGLE_VALUE"
    by (simp_all add: sensor_single_def sensor_both_def READ_BOTH_VALUES_def
        READ_SINGLE_VALUE_def)
  have w0: "bus ?w (trace ?w @ [Bus 0x40 Enter, Bus 0x40 (Write [0x00])]) = Ack []"
    and w1: "bus ?w (trace ?w @ [Bus 0x40 Enter, Bus 0x40 (Write [0x01])]) = Ack []"
    and r0: "bus ?w (trace ?w @ [Bus 0x40 Enter, Bus 0x40 (Write [0x00]),
      Sleep (635 / 10000), Bus 0x40 (ReadInto 1 3)]) = Ack [0x66, 0x64]"
    and r1: "bus ?w (trace ?w @ [Bus 0x40 Enter, Bus 0x40 (Write [0x01]),
      Sleep (635 / 10000), Bus 0x40 (ReadInto 1 3)]) = Ack [0x66, 0x64]"
    and r2: "bus ?w (trace ?w @ [Bus 0x40 Enter, Bus 0x40 (Write [0x00]),
      Sleep (635 / 10000), Bus 0x40 (ReadInto 1 5)]) = Ack [0x66, 0x64, 0x33, 0x00]"
    by (simp_all add: mock_world_def mock_bus_def)
  have s1: "sint (word_of_int (256 * uint (0x66 :: byte) + uint (0x64 :: byte)) :: 16 word) =
      26212"
    and s2: "sint (word_of_int (256 * uint (0x33 :: byte) + uint (0x00 :: byte)) :: 16 word) =
      13056"
    by simp_all
  note single = reads_wait [where self = sensor_single and w = ?w and rt = "[]" and rh = "[]"
      and ?t0.0 = "0x66" and ?t1.0 = "0x64" and ?h0.0 = "0x66" and ?h1.0 = "0x64"
      and t = "convert_to_celsius 26212" and h = "convert_to_relative_humidity 26212",
      unfolded a1]
  note both = reads_wait [where self = sensor_both and w = ?w and rb = "[]"
      and ?c0.0 = "0x66" and ?c1.0 = "0x64" and ?c2.0 = "0x33" and ?c3.0 = "0x00"
      and th = "(convert_to_celsius 26212, convert_to_relative_humidity 13056)",
      unfolded a2]
  have tv: "fst (temperature sensor_single ?w) = Inr (convert_to_celsius 26212)"
    using single m1 len w0 r0 unfolding s1 by blast
  have hv: "fst (humidity sensor_single ?w) = Inr (convert_to_relative_humidity 26212)"
    using single m1 len w1 r1 unfolding s1 by blast
  have bv: "fst (temperature_and_humidity sensor_both ?w) =
      Inr (convert_to_celsius 26212, convert_to_relative_humidity 13056)"
    using both m2 len w0 r2 unfolding s1 s2 by blast
  have te: "events_since ?w (snd (temperature sensor_single ?w)) =
     [Bus 0x40 Enter, Bus 0x40 (Write [0x00]), Sleep (635 / 10000), Bus 0x40 (ReadInto 1 3),
      Bus 0x40 Exit]"
    using single tv by blast
  have he: "events_since ?w (snd (humidity sensor_single ?w)) =
     [Bus 0x40 Enter, Bus 0x40 (Write [0x01]), Sleep (635 / 10000), Bus 0x40 (ReadInto 1 3),
      Bus 0x40 Exit]"
    using single hv by blast
  have be: "events_since ?w (snd (temperature_and_humidity sensor_both ?w)) =
     [Bus 0x40 Enter, Bus 0x40 (Write [0x00]), Sleep (635 / 10000),
      Bus 0x40 (ReadInto 1 (length (BUFFER ?w))), Bus 0x40 Exit]"
    using both bv by blast
  show ?thesis
    using tv hv bv te he be t len by (simp add: events_since_def)
qed

text \<open>
  C8. A combined read that the bus serves writes the register address 0x00 once, sleeps,
  reads four bytes in one \<open>readinto\<close> (into bytes 1 to 4 of the buffer) and returns the
  temperature converted from the big-endian signed 16-bit value of the first two bytes
  and the humidity converted from that of the last two.
\<close>

theorem read_both_transfer:
  assumes "mode self \<noteq> READ_SINGLE_VALUE"
    and "length (BUFFER w) = 5"
    and "bus w (trace w @ [Bus (i2c_device self) Enter, Bus (i2c_device self) (Write [0x00])]) =
           Ack r"
    and "bus w (trace w @ [Bus (i2c_device self) Enter, Bus (i2c_device self) (Write [0x00]),
           Sleep (635 / 10000), Bus (i2c_device self) (ReadInto 1 5)]) = Ack [b0, b1, b2, b3]"
  shows "temperature_and_humidity self w =
           (Inr (convert_to_celsius (sint (word_of_int (256 * uint b0 + uint b1) :: 16 word)),
                 convert_to_relative_humidity
                   (sint (word_of_int (256 * uint b2 + uint b3) :: 16 word))),
            w\<lparr>BUFFER := [0x00, b0, b1, b2, b3],
              trace := trace w @ [Bus (i2c_device self) Enter,
                Bus (i2c_device self) (Write [0x00]), Sleep (635 / 10000),
                Bus (i2c_device self) (ReadInto 1 5), Bus (i2c_device self) Exit]\<rparr>)"
proof -
  have "read_from_registers self REG_TEMP ''>h'' w =
           (Inr (sint (word_of_int (256 * uint b0 + uint b1) :: 16 word),
                 sint (word_of_int (256 * uint b2 + uint b3) :: 16 word)),
            w\<lparr>BUFFER := [0x00, b0, b1, b2, b3],
              trace := trace w @ [Bus (i2c_device self) Enter,
                Bus (i2c_device self) (Write [0x00]), Sleep (635 / 10000),
                Bus (i2c_device self) (ReadInto 1 5), Bus (i2c_device self) Exit]\<rparr>)"
    using read_from_registers_ok [of w self REG_TEMP r b0 b1 b2 b3] assms(2,3,4)
    by simp
  then show ?thesis
    using assms(1) by (simp add: temperature_and_humidity_def)
qed

theorem read_both_transfer_witness:
  "mode sensor_both \<noteq> READ_SINGLE_VALUE \<and>
   length (BUFFER (mock_world [] [0x66, 0x64, 0x80, 0x00])) = 5 \<and>
   fst (temperature_and_humidity sensor_both (mock_world [] [0x66, 0x64, 0x80, 0x00])) =
     Inr (convert_to_celsius 26212, convert_to_relative_humidity (- 32768)) \<and>
   BUFFER (snd (temperature_and_humidity sensor_both (mock_world [] [0x66, 0x64, 0x80, 0x00]))) =
     [0x00, 0x66, 0x64, 0x80, 0x00] \<and>
   trace (snd (temperature_and_humidity sensor_both (mock_world [] [0x66, 0x64, 0x80, 0x00]))) =
     [Bus 0x40 Enter, Bus 0x40 (Write [0x00]), Sleep (635 / 10000), Bus 0x40 (ReadInto 1 5),
      Bus 0x40 Exit]"
proof -
  let ?w = "mock_world [] [0x66, 0x64, 0x80, 0x00]"
  have a: "i2c_device sensor_both = 0x40"
    by (simp add: sensor_both_def HDC1080_I2CADDR_DEFAULT_def)
  have h1: "mode sensor_both \<noteq> READ_SINGLE_VALUE"
    by (simp add: sensor_both_def READ_BOTH_VALUES_def READ_SINGLE_VALUE_def)
  have h2: "length (BUFFER ?w) = 5"
    by (simp add: mock_world_def BUFFER_initial_def)
  have h3: "bus ?w (trace ?w @ [Bus (i2c_device sensor_both) Enter,
      Bus (i2c_device sensor_both) (Write [0x00])]) = Ack []"
    by (simp add: mock_world_def mock_bus_def)
  have h4: "bus ?w (trace ?w @ [Bus (i2c_device sensor_both) Enter,
      Bus (i2c_device sensor_both) (Write [0x00]), Sleep (635 / 10000),
      Bus (i2c_device sensor_both) (ReadInto 1 5)]) = Ack [0x66, 0x64, 0x80, 0x00]"
    by (simp add: mock_world_def mock_bus_def)
  have t: "trace ?w = []"
    by (simp add: mock_world_def)
  have s1: "sint (word_of_int (256 * uint (0x66 :: byte) + uint (0x64 :: byte)) :: 16 word) =
      26212"
    by simp
  have s2: "sint (word_of_int (256 * uint (0x80 :: byte) + uint (0x00 :: byte)) :: 16 word) =
      - 32768"
    by simp
  show ?thesis
    using h1 h2 t a s1 s2 read_both_transfer [OF h1 h2 h3 h4]
    by simp
qed

text \<open>
  C9, as the code has it. The scratch buffer is an attribute of the class, shared by all
  instances: after a read operation on one instance, any other instance sees the buffer
  that instance sees; a temperature read that the bus serves leaves, in the buffer of
  every instance, the register address 0x00 in byte 0 and the two bytes read in bytes 1
  and 2.
\<close>

theorem buffer_shared:
  "self_BUFFER other (snd (temperature self w)) =
     self_BUFFER self (snd (temperature self w)) \<and>
   self_BUFFER other (snd (humidity self w)) =
     self_BUFFER self (snd (humidity self w)) \<and>
   self_BUFFER other (snd (temperature_and_humidity self w)) =
     self_BUFFER self (snd (temperature_and_humidity self w)) \<and>
   (mode self \<noteq> READ_BOTH_VALUES \<and> length (BUFFER w) = 5 \<and>
    bus w (trace w @ [Bus (i2c_device self) Enter, Bus (i2c_device self) (Write [0x00])]) =
      Ack r \<and>
    bus w (trace w @ [Bus (i2c_device self) Enter, Bus (i2c_device self) (Write [0x00]),
      Sleep (635 / 10000), Bus (i2c_device self) (ReadInto 1 3)]) = Ack [b0, b1] \<longrightarrow>
    self_BUFFER other (snd (temperature self w)) = 0x00 # b0 # b1 # drop 3 (self_BUFFER other w))"
proof -
  have "self_BUFFER other (snd (temperature self w)) = 0x00 # b0 # b1 # drop 3 (self_BUFFER other w)"
    if "mode self \<noteq> READ_BOTH_VALUES" and "length (BUFFER w) = 5"
      and "bus w (trace w @ [Bus (i2c_device self) Enter,
        Bus (i2c_device self) (Write [0x00])]) = Ack r"
      and "bus w (trace w @ [Bus (i2c_device self) Enter, Bus (i2c_device self) (Write [0x00]),
        Sleep (635 / 10000), Bus (i2c_device self) (ReadInto 1 3)]) = Ack [b0, b1]"
    using that read_from_register_ok [of w self REG_TEMP r b0 b1 "''>h''"]
    by (simp add: temperature_world self_BUFFER_def)
  then show ?thesis
    by (simp add: self_BUFFER_def)
qed

theorem buffer_shared_witness:
  "self_BUFFER sensor_other (mock_world [] [0x66, 0x64]) = [0x00, 0x00, 0x00, 0x00, 0x00] \<and>
   self_BUFFER sensor_other (snd (temperature sensor_single (mock_world [] [0x66, 0x64]))) =
     [0x00, 0x66, 0x64, 0x00, 0x00] \<and>
   self_BUFFER sensor_single (snd (temperature sensor_single (mock_world [] [0x66, 0x64]))) =
     [0x00, 0x66, 0x64, 0x00, 0x00]"
proof -
  let ?w = "mock_world [] [0x66, 0x64]"
  have h1: "mode sensor_single \<noteq> READ_BOTH_VALUES"
    by (simp add: sensor_single_def READ_BOTH_VALUES_def READ_SINGLE_VALUE_def)
  have h2: "length (BUFFER ?w) = 5"
    by (simp add: mock_world_def BUFFER_initial_def)
  have h3: "bus ?w (trace ?w @ [Bus (i2c_device sensor_single) Enter,
      Bus (i2c_device sensor_single) (Write [0x00])]) = Ack []"
    by (simp add: mock_world_def mock_bus_def)
  have h4: "bus ?w (trace ?w @ [Bus (i2c_device sensor_single) Enter,
      Bus (i2c_device sensor_single) (Write [0x00]), Sleep (635 / 10000),
      Bus (i2c_device sensor_single) (ReadInto 1 3)]) = Ack [0x66, 0x64]"
    by (simp add: mock_world_def mock_bus_def)
  have before: "self_BUFFER sensor_other ?w = [0x00, 0x00, 0x00, 0x00, 0x00]"
    by (simp add: self_BUFFER_def mock_world_def BUFFER_initial_def eval_nat_numeral)
  note shared = buffer_shared [of sensor_other sensor_single ?w "[]" "0x66" "0x64"]
  have same: "self_BUFFER sensor_other (snd (temperature sensor_single ?w)) =
      self_BUFFER sensor_single (snd (temperature sensor_single ?w))"
    using shared by blast
  have "self_BUFFER sensor_other (snd (temperature sensor_single ?w)) =
      0x00 # 0x66 # 0x64 # drop 3 (self_BUFFER sensor_other ?w)"
    using shared h1 h2 h3 h4 by blast
  then have after: "self_BUFFER sensor_other (snd (temperature sensor_single ?w)) =
      [0x00, 0x66, 0x64, 0x00, 0x00]"
    by (simp add: before)
  show ?thesis
    using before after same by simp
qed

text \<open>
  C9, as the claim states it, fails: a temperature read on one instance changes the
  buffer that another instance, at another address, sees.
\<close>

theorem buffer_exclusive_counterexample:
  "sensor_other \<noteq> sensor_single \<and>
   self_BUFFER sensor_other (snd (temperature sensor_single (mock_world [] [0x66, 0x64]))) \<noteq>
     self_BUFFER sensor_other (mock_world [] [0x66, 0x64])"
  by code_simp

text \<open>
  C10. Each read operation raises its wrong-mode error exactly when the stored mode is
  the one value it tests for: \<open>READ_BOTH_VALUES\<close>, which is 1, in \<open>temperature\<close> and
  \<open>humidity\<close>, and \<open>READ_SINGLE_VALUE\<close>, which is 0, in \<open>temperature_and_humidity\<close>.
  With any other mode, all three enter the device and write the register address. The
  constructor accepts every mode: on a bus that acknowledges every call and answers the
  read of the device ID with 0x10 0x50 it returns an instance that stores the mode it was
  given, whatever that is, and its last call writes that mode to the operation-mode bit.
\<close>

theorem mode_check_exact:
  "(fst (temperature self w) = Inl wrong_mode_both \<longleftrightarrow> mode self = READ_BOTH_VALUES) \<and>
   (fst (humidity self w) = Inl wrong_mode_both \<longleftrightarrow> mode self = READ_BOTH_VALUES) \<and>
   (fst (temperature_and_humidity self w) = Inl wrong_mode_single \<longleftrightarrow>
      mode self = READ_SINGLE_VALUE) \<and>
   READ_SINGLE_VALUE = 0 \<and> READ_BOTH_VALUES = 1 \<and>
   (mode self \<noteq> 0 \<and> mode self \<noteq> 1 \<and> BUFFER w \<noteq> [] \<longrightarrow>
      take 2 (events_since w (snd (temperature self w))) =
        [Bus (i2c_device self) Enter, Bus (i2c_device self) (Write [0x00])] \<and>
      take 2 (events_since w (snd (humidity self w))) =
        [Bus (i2c_device self) Enter, Bus (i2c_device self) (Write [0x01])] \<and>
      take 2 (events_since w (snd (temperature_and_humidity self w))) =
        [Bus (i2c_device self) Enter, Bus (i2c_device self) (Write [0x00])]) \<and>
   (fst (HDC1080_init address m w) = Inr d \<longrightarrow>
      mode d = m \<and>
      last (trace (snd (HDC1080_init address m w))) =
        Bus address (BitSet REG_CONF 12 2 False m)) \<and>
   ((\<forall>es. bus w (trace w @ es) \<noteq> Nack) \<and>
    bus w (trace w @ [Bus address Open, Bus address (StructGet REG_DEID ''>H'')]) =
      Ack [0x10, 0x50] \<longrightarrow>
      fst (HDC1080_init address m w) = Inr \<lparr>i2c_device = address, mode = m\<rparr> \<and>
      last (trace (snd (HDC1080_init address m w))) =
        Bus address (BitSet REG_CONF 12 2 False m))"
proof -
  have t: "fst (temperature self w) = Inl wrong_mode_both \<longleftrightarrow> mode self = READ_BOTH_VALUES"
    using temperature_errors [of self w]
    by (cases "mode self = READ_BOTH_VALUES") (auto simp: temperature_def wrong_mode_both_def)
  have h: "fst (humidity self w) = Inl wrong_mode_both \<longleftrightarrow> mode self = READ_BOTH_VALUES"
    using humidity_errors [of self w]
    by (cases "mode self = READ_BOTH_VALUES") (auto simp: humidity_def wrong_mode_both_def)
  have b: "fst (temperature_and_humidity self w) = Inl wrong_mode_single \<longleftrightarrow>
      mode self = READ_SINGLE_VALUE"
    using temperature_and_humidity_errors [of self w]
    by (cases "mode self = READ_SINGLE_VALUE")
      (auto simp: temperature_and_humidity_def wrong_mode_single_def)
  have c: "READ_SINGLE_VALUE = 0 \<and> READ_BOTH_VALUES = 1"
    by (simp add: READ_SINGLE_VALUE_def READ_BOTH_VALUES_def)
  have p: "take 2 (events_since w (snd (temperature self w))) =
        [Bus (i2c_device self) Enter, Bus (i2c_device self) (Write [0x00])] \<and>
      take 2 (events_since w (snd (humidity self w))) =
        [Bus (i2c_device self) Enter, Bus (i2c_device self) (Write [0x01])] \<and>
      take 2 (events_since w (snd (temperature_and_humidity self w))) =
        [Bus (i2c_device self) Enter, Bus (i2c_device self) (Write [0x00])]"
    if "mode self \<noteq> 0" and "mode self \<noteq> 1" and "BUFFER w \<noteq> []"
    using that c read_from_register_starts [of w self REG_TEMP "''>h''"]
      read_from_register_starts [of w self REG_HUMI "''>h''"]
      read_from_registers_starts [of w self REG_TEMP "''>h''"]
    by (simp add: temperature_world humidity_world temperature_and_humidity_world)
  have i: "mode d = m \<and> last (trace (snd (HDC1080_init address m w))) =
        Bus address (BitSet REG_CONF 12 2 False m)"
    if "fst (HDC1080_init address m w) = Inr d"
    using init_returns [OF that] by simp
  have s: "fst (HDC1080_init address m w) = Inr \<lparr>i2c_device = address, mode = m\<rparr> \<and>
      last (trace (snd (HDC1080_init address m w))) =
        Bus address (BitSet REG_CONF 12 2 False m)"
    if "\<forall>es. bus w (trace w @ es) \<noteq> Nack"
      and "bus w (trace w @ [Bus address Open, Bus address (StructGet REG_DEID ''>H'')]) =
        Ack [0x10, 0x50]"
    using init_served [OF that, of m] by simp
  show ?thesis
    using t h b c p i s by blast
qed

theorem mode_check_exact_witness:
  "mode sensor_mode2 \<noteq> 0 \<and> mode sensor_mode2 \<noteq> 1 \<and>
   BUFFER (mock_world [0x10, 0x50] [0x66, 0x64, 0x33, 0x00]) \<noteq> [] \<and>
   (\<forall>es. bus (mock_world [0x10, 0x50] [0x66, 0x64, 0x33, 0x00])
      (trace (mock_world [0x10, 0x50] [0x66, 0x64, 0x33, 0x00]) @ es) \<noteq> Nack) \<and>
   fst (HDC1080_init 0x40 2 (mock_world [0x10, 0x50] [0x66, 0x64, 0x33, 0x00])) =
     Inr sensor_mode2 \<and>
   last (trace (snd (HDC1080_init 0x40 2 (mock_world [0x10, 0x50] [0x66, 0x64, 0x33, 0x00])))) =
     Bus 0x40 (BitSet 0x02 12 2 False 2) \<and>
   fst (HDC1080_init 0x40 (- 3) (mock_world [0x10, 0x50] [0x66, 0x64, 0x33, 0x00])) =
     Inr \<lparr>i2c_device = 0x40, mode = - 3\<rparr> \<and>
   fst (temperature sensor_mode2 (mock_world [0x10, 0x50] [0x66, 0x64, 0x33, 0x00])) \<noteq>
     Inl wrong_mode_both \<and>
   fst (humidity sensor_mode2 (mock_world [0x10, 0x50] [0x66, 0x64, 0x33, 0x00])) \<noteq>
     Inl wrong_mode_both \<and>
   fst (temperature_and_humidity sensor_mode2
          (mock_world [0x10, 0x50] [0x66, 0x64, 0x33, 0x00])) \<noteq> Inl wrong_mode_single \<and>
   take 2 (trace (snd (temperature sensor_mode2
          (mock_world [0x10, 0x50] [0x66, 0x64, 0x33, 0x00])))) =
     [Bus 0x40 Enter, Bus 0x40 (Write [0x00])] \<and>
   take 2 (trace (snd (humidity sensor_mode2
          (mock_world [0x10, 0x50] [0x66, 0x64, 0x33, 0x00])))) =
     [Bus 0x40 Enter, Bus 0x40 (Write [0x01])] \<and>
   take 2 (trace (snd (temperature_and_humidity sensor_mode2
          (mock_world [0x10, 0x50] [0x66, 0x64, 0x33, 0x00])))) =
     [Bus 0x40 Enter, Bus 0x40 (Write [0x00])]"
proof -
  let ?w = "mock_world [0x10, 0x50] [0x66, 0x64, 0x33, 0x00]"
  have m: "mode sensor_mode2 = 2" and a: "i2c_device sensor_mode2 = 0x40"
    and d: "sensor_mode2 = \<lparr>i2c_device = 0x40, mode = 2\<rparr>"
    by (simp_all add: sensor_mode2_def HDC1080_I2CADDR_DEFAULT_def)
  have buf: "BUFFER ?w \<noteq> []" and t: "trace ?w = []"
    by (simp_all add: mock_world_def BUFFER_initial_def)
  have acks: "\<forall>es. bus ?w (trace ?w @ es) \<noteq> Nack"
    by (simp add: mock_world_acks)
  have ident: "bus ?w (trace ?w @ [Bus 0x40 Open, Bus 0x40 (StructGet REG_DEID ''>H'')]) =
      Ack [0x10, 0x50]"
    by (simp add: mock_world_def mock_bus_def)
  have ok: "fst (HDC1080_init 0x40 2 ?w) = Inr \<lparr>i2c_device = 0x40, mode = 2\<rparr>"
    using acks ident
      mode_check_exact [where address = "0x40" and m = 2 and w = ?w]
    by blast
  have neg: "fst (HDC1080_init 0x40 (- 3) ?w) = Inr \<lparr>i2c_device = 0x40, mode = - 3\<rparr>"
    using acks ident
      mode_check_exact [where address = "0x40" and m = "- 3" and w = ?w]
    by blast
  show ?thesis
    using m a buf t ok neg acks
      mode_check_exact [of sensor_mode2 ?w "0x40" 2 sensor_mode2]
    by (simp add: events_since_def REG_CONF_def d)
qed

end
